theory Spec2Isabelle
  imports Complex_Main
begin

section \<open>JavaScript values used by the cell utilities\<close>

text \<open>
  A JavaScript number is an IEEE binary64 value. Every finite binary64 value is a
  rational, so a finite number is carried as the rational it denotes; the three
  non-finite values are constructors of their own. The sign of zero is not tracked:
  \<open>===\<close> does not tell \<open>-0\<close> from \<open>0\<close>, and no function below does.
\<close>

datatype number = Fin rat | NaN | PosInf | NegInf

datatype error = TypeError | RangeError | DecodeError

text \<open>Powers of two with an integer exponent.\<close>

definition pow2 :: "int \<Rightarrow> rat" where
  "pow2 k = (if 0 \<le> k then 2 ^ nat k else 1 / 2 ^ nat (- k))"

text \<open>Number of binary digits of a positive integer (0 for the others).\<close>

function bitlen :: "int \<Rightarrow> int" where
  "bitlen n = (if n \<le> 0 then 0 else 1 + bitlen (n div 2))"
  by pat_completeness auto
termination
  by (relation "measure nat") auto

declare bitlen.simps [simp del]

text \<open>
  The binary exponent of a positive rational \<open>a\<close>: the \<open>k\<close> with
  \<open>2^k \<le> a < 2^(k+1)\<close>. The difference of the bit lengths of numerator and
  denominator is either \<open>k\<close> or \<open>k + 1\<close>; one comparison decides.
\<close>

definition ilog2 :: "rat \<Rightarrow> int" where
  "ilog2 a = (let (n, d) = quotient_of a;
                  k = bitlen n - bitlen d
              in if pow2 k \<le> a then k else k - 1)"

definition round_half_even :: "rat \<Rightarrow> int" where
  "round_half_even y =
     (let f = \<lfloor>y\<rfloor>; d = y - of_int f
      in if d < 1 / 2 then f
         else if 1 / 2 < d then f + 1
         else if even f then f else f + 1)"

text \<open>
  Rounding a rational to the nearest binary64 value, ties to even: 53 significant
  bits, the exponent of a normal value between -1022 and 1023, subnormal values on
  the grid of \<open>2^-1074\<close>, and overflow to infinity from \<open>2^1024\<close> on.
\<close>

definition round_double :: "rat \<Rightarrow> number" where
  "round_double q =
     (if q = 0 then Fin 0
      else let a = \<bar>q\<bar>;
               ex = max (ilog2 a) (- 1022);
               ulp = pow2 (ex - 52);
               n = round_half_even (a / ulp);
               m = of_int n * ulp
           in if 1024 \<le> ex \<or> (ex = 1023 \<and> n = 2 ^ 53)
              then (if 0 < q then PosInf else NegInf)
              else Fin (if 0 < q then m else - m))"

text \<open>
  \<open>Number.prototype.toFixed(digits)\<close>. The decimal string it returns is carried as
  the value the string denotes. A digit count outside 0..100 raises a RangeError
  before anything else is looked at; a non-finite number is printed by name; from
  \<open>10^21\<close> on the number is printed by \<open>toString\<close>, which denotes the number itself;
  below that the result is \<open>n / 10^digits\<close> for the integer \<open>n\<close> that brings it
  closest to the magnitude, the larger \<open>n\<close> on a tie, with the sign put back.
\<close>

definition toFixed :: "number \<Rightarrow> int \<Rightarrow> error + number" where
  "toFixed this digits =
     (if digits < 0 \<or> 100 < digits then Inl RangeError
      else case this of
        Fin q \<Rightarrow>
          (let x = \<bar>q\<bar> in
           if 10 ^ 21 \<le> x then Inr (Fin q)
           else let n = \<lfloor>x * 10 ^ nat digits + 1 / 2\<rfloor>;
                    m = of_int n / 10 ^ nat digits
                in Inr (Fin (if q < 0 then - m else m)))
      | other \<Rightarrow> Inr other)"

text \<open>
  \<open>parseFloat\<close> on a string that \<open>toFixed\<close> produced: the names of the non-finite
  values parse to those values, a decimal parses to the nearest binary64 value.
\<close>

definition parseFloat :: "number \<Rightarrow> number" where
  "parseFloat str = (case str of Fin q \<Rightarrow> round_double q | other \<Rightarrow> other)"

text \<open>
  \<^verbatim>\<open>Number.prototype.toFixedFloat = function (digits = 35) { ... }\<close>: the default
  applies when the argument is omitted (\<open>None\<close>).
\<close>

definition toFixedFloat :: "number \<Rightarrow> int option \<Rightarrow> error + number" where
  "toFixedFloat this digits_arg =
     (let digits = (case digits_arg of None \<Rightarrow> 35 | Some d \<Rightarrow> d) in
      case toFixed this digits of
        Inl err \<Rightarrow> Inl err
      | Inr fixedValue \<Rightarrow>
          (let floatValue = parseFloat fixedValue in Inr floatValue))"

text \<open>
  The remainder operator \<open>%\<close>: the result has the sign of the dividend and is exact;
  it is NaN when the dividend is not finite or the divisor is zero or NaN, and the
  dividend itself when the divisor is infinite.
\<close>

definition js_rem :: "number \<Rightarrow> number \<Rightarrow> number" where
  "js_rem x y =
     (case (x, y) of
        (Fin a, Fin b) \<Rightarrow>
          (if b = 0 then NaN
           else let quo = a / b;
                    tr = (if 0 \<le> quo then \<lfloor>quo\<rfloor> else \<lceil>quo\<rceil>)
                in Fin (a - b * of_int tr))
      | (Fin a, PosInf) \<Rightarrow> Fin a
      | (Fin a, NegInf) \<Rightarrow> Fin a
      | _ \<Rightarrow> NaN)"

text \<open>Strict equality of numbers: NaN equals nothing, itself included.\<close>

definition strict_eq :: "number \<Rightarrow> number \<Rightarrow> bool" where
  "strict_eq x y = (x \<noteq> NaN \<and> y \<noteq> NaN \<and> x = y)"

section \<open>Worksheets and cell records\<close>

text \<open>
  The raw value of a cell record (\<open>v\<close>), the record itself with its optional type
  tag \<open>t\<close> and display format \<open>z\<close>, and coordinates and rectangles as the
  spreadsheet library declares them. A record with no \<open>v\<close> property and one whose
  \<open>v\<close> is \<open>undefined\<close> read alike and are not told apart.
\<close>

datatype prim = PUndefined | PNumber number | PString string | PBoolean bool

record CellObject =
  t :: "string option"
  v :: prim
  z :: "string option"

record CellAddress =
  r :: int
  c :: int

record Range =
  s :: CellAddress
  e :: CellAddress

text \<open>
  What every object inherits: \<open>Object.prototype\<close> itself, which is what the name
  \<open>__proto__\<close> reads on an object whose prototype was never replaced, and the
  functions found under the other names of \<open>Object.prototype\<close>.
\<close>

datatype builtin = ObjectPrototype | ObjectMember string

definition object_prototype_functions :: "string list" where
  "object_prototype_functions =
     [''constructor'', ''hasOwnProperty'', ''isPrototypeOf'', ''propertyIsEnumerable'',
      ''toLocaleString'', ''toString'', ''valueOf'', ''__defineGetter__'',
      ''__defineSetter__'', ''__lookupGetter__'', ''__lookupSetter__'']"

text \<open>
  What reading a property of a worksheet object can give, and so what a property can
  hold: a cell record, the array of merge rectangles, a bare number, string, boolean
  or \<open>undefined\<close> (the writer can store its argument verbatim, the copier stores what
  it read), and an inherited built-in.
\<close>

datatype jsval =
    VUndefined
  | VNumber number
  | VString string
  | VBoolean bool
  | VObject CellObject
  | VArray "Range list"
  | VBuiltin builtin

text \<open>
  A worksheet is one JavaScript object. The map gives its own properties, cell
  addresses and the key \<open>!merges\<close> alike; an absent key and a key holding
  \<open>undefined\<close> differ (\<open>None\<close> against \<open>Some VUndefined\<close>) though both read as
  \<open>undefined\<close>.

  The name \<open>__proto__\<close> is never an own property: reading it and assigning to it go
  through the accessor that the object inherits from \<open>Object.prototype\<close>. The entry
  of the map at \<open>__proto__\<close> therefore stands for the object's prototype: a cell
  record when one has been assigned to that name, \<open>Object.prototype\<close> in every other
  case. The own keys of a worksheet are the keys of the map other than \<open>__proto__\<close>.
  A worksheet whose prototype is neither \<open>Object.prototype\<close> nor a cell record is
  outside the model.
\<close>

type_synonym WorkSheet = "string \<rightharpoonup> jsval"

definition own_keys :: "WorkSheet \<Rightarrow> string set" where
  "own_keys worksheet = dom worksheet - {''__proto__''}"

definition proto_of :: "WorkSheet \<Rightarrow> jsval" where
  "proto_of worksheet =
     (case worksheet ''__proto__'' of
        Some (VObject cell) \<Rightarrow> VObject cell
      | _ \<Rightarrow> VBuiltin ObjectPrototype)"

fun prim_to_jsval :: "prim \<Rightarrow> jsval" where
  "prim_to_jsval PUndefined = VUndefined"
| "prim_to_jsval (PNumber x) = VNumber x"
| "prim_to_jsval (PString x) = VString x"
| "prim_to_jsval (PBoolean x) = VBoolean x"

text \<open>A name looked up on \<open>Object.prototype\<close>, the end of every prototype chain here.\<close>

definition object_member :: "string \<Rightarrow> jsval" where
  "object_member key =
     (if key \<in> set object_prototype_functions then VBuiltin (ObjectMember key)
      else VUndefined)"

text \<open>
  A name that is not an own property, looked up on the prototype: the fields of a
  cell record first when the prototype is one, then \<open>Object.prototype\<close>.
\<close>

definition inherited :: "jsval \<Rightarrow> string \<Rightarrow> jsval" where
  "inherited proto key =
     (case proto of
        VObject cell \<Rightarrow>
          (if key = ''t'' \<and> t cell \<noteq> None then VString (the (t cell))
           else if key = ''z'' \<and> z cell \<noteq> None then VString (the (z cell))
           else if key = ''v'' then prim_to_jsval (v cell)
           else object_member key)
      | _ \<Rightarrow> object_member key)"

text \<open>The property read \<open>worksheet[key]\<close>.\<close>

definition js_get :: "WorkSheet \<Rightarrow> string \<Rightarrow> jsval" where
  "js_get worksheet key =
     (if key = ''__proto__'' then proto_of worksheet
      else case worksheet key of
        None \<Rightarrow> inherited (proto_of worksheet) key
      | Some x \<Rightarrow> x)"

text \<open>
  The assignment \<open>worksheet[key] = x\<close>. Under any name but \<open>__proto__\<close> it creates
  or overwrites the own property (every inherited property here is a writable data
  property). Under \<open>__proto__\<close> it reaches the inherited setter: a cell record
  becomes the prototype, \<open>Object.prototype\<close> becomes the prototype again, and a
  value that is not an object is ignored. Assigning an array or a function to
  \<open>__proto__\<close> would leave the model and is left without effect.
\<close>

definition js_set :: "WorkSheet \<Rightarrow> string \<Rightarrow> jsval \<Rightarrow> WorkSheet" where
  "js_set worksheet key x =
     (if key = ''__proto__''
      then (case x of
              VObject cell \<Rightarrow> worksheet(key \<mapsto> x)
            | VBuiltin ObjectPrototype \<Rightarrow> worksheet(key := None)
            | _ \<Rightarrow> worksheet)
      else worksheet(key \<mapsto> x))"

fun js_typeof :: "jsval \<Rightarrow> string" where
  "js_typeof VUndefined = ''undefined''"
| "js_typeof (VNumber x) = ''number''"
| "js_typeof (VString x) = ''string''"
| "js_typeof (VBoolean x) = ''boolean''"
| "js_typeof (VObject x) = ''object''"
| "js_typeof (VArray x) = ''object''"
| "js_typeof (VBuiltin ObjectPrototype) = ''object''"
| "js_typeof (VBuiltin (ObjectMember x)) = ''function''"

fun js_truthy :: "jsval \<Rightarrow> bool" where
  "js_truthy VUndefined = False"
| "js_truthy (VNumber x) = (x \<noteq> Fin 0 \<and> x \<noteq> NaN)"
| "js_truthy (VString x) = (x \<noteq> [])"
| "js_truthy (VBoolean x) = x"
| "js_truthy (VObject x) = True"
| "js_truthy (VArray x) = True"
| "js_truthy (VBuiltin x) = True"

text \<open>
  Reading the property \<open>t\<close> or \<open>v\<close> of a value: a TypeError on \<open>undefined\<close>, the
  field of a cell record, and \<open>undefined\<close> on anything else.
\<close>

fun prop_t :: "jsval \<Rightarrow> error + string option" where
  "prop_t VUndefined = Inl TypeError"
| "prop_t (VObject cell) = Inr (t cell)"
| "prop_t other = Inr None"

fun prop_v :: "jsval \<Rightarrow> error + prim" where
  "prop_v VUndefined = Inl TypeError"
| "prop_v (VObject cell) = Inr (v cell)"
| "prop_v other = Inr PUndefined"

text \<open>Optional chaining \<open>cell?.v\<close>: \<open>undefined\<close> on \<open>undefined\<close>, never an error.\<close>

fun opt_v :: "jsval \<Rightarrow> prim" where
  "opt_v VUndefined = PUndefined"
| "opt_v (VObject cell) = v cell"
| "opt_v other = PUndefined"

section \<open>The typed readers\<close>

definition getCellNumericValue :: "WorkSheet \<Rightarrow> string \<Rightarrow> error + prim" where
  "getCellNumericValue worksheet cellAddress =
     (let cell = js_get worksheet cellAddress in
      if \<not> js_truthy cell then Inr (PNumber (Fin 0))
      else case prop_t cell of
        Inl err \<Rightarrow> Inl err
      | Inr tag \<Rightarrow>
          if tag \<noteq> Some ''n'' then Inr (PNumber (Fin 0))
          else prop_v cell)"

definition getCellStringValue :: "WorkSheet \<Rightarrow> string \<Rightarrow> error + prim" where
  "getCellStringValue worksheet cellAddress =
     (let cell = js_get worksheet cellAddress in
      if \<not> js_truthy cell then Inr (PString '''')
      else case prop_t cell of
        Inl err \<Rightarrow> Inl err
      | Inr tag \<Rightarrow>
          if tag \<noteq> Some ''s'' then Inr (PString '''')
          else prop_v cell)"

section \<open>The cell writer\<close>

text \<open>
  \<open>formatCell\<close> is an optional parameter with default \<open>true\<close>. The last branch of
  the source runs on what is left after the three tests: a number, for which the
  writer calls \<open>toFixedFloat\<close> with no argument when it is not whole. The declared
  parameter type admits nothing else there; of the other values a worksheet can
  hold, a boolean counts as the number 1 or 0 under \<open>%\<close> and is whole, and a function
  is not a number under \<open>%\<close> and has no \<open>toFixedFloat\<close> to call, a TypeError.
\<close>

definition setCellValue ::
  "WorkSheet \<Rightarrow> string \<Rightarrow> jsval \<Rightarrow> bool option \<Rightarrow> error + WorkSheet" where
  "setCellValue worksheet cellAddress val formatCell_arg =
     (let formatCell = (case formatCell_arg of None \<Rightarrow> True | Some b \<Rightarrow> b) in
      if \<not> formatCell \<or> js_typeof val = ''object''
      then Inr (js_set worksheet cellAddress val)
      else case val of
        VUndefined \<Rightarrow>
          Inr (js_set worksheet cellAddress (VObject \<lparr>t = None, v = PUndefined, z = None\<rparr>))
      | VString str \<Rightarrow>
          Inr (js_set worksheet cellAddress
                 (VObject \<lparr>t = Some ''s'', v = PString str, z = None\<rparr>))
      | VNumber x \<Rightarrow>
          (let isWholeNumber = strict_eq (js_rem x (Fin 1)) (Fin 0) in
           case (if isWholeNumber then Inr x else toFixedFloat x None) of
             Inl err \<Rightarrow> Inl err
           | Inr fixedValue \<Rightarrow>
               (let format = (if isWholeNumber then ''0'' else ''0.0000'') in
                Inr (js_set worksheet cellAddress
                  (VObject \<lparr>t = Some ''n'', v = PNumber fixedValue, z = Some format\<rparr>))))
      | VBoolean b \<Rightarrow>
          Inr (js_set worksheet cellAddress
                 (VObject \<lparr>t = Some ''n'', v = PBoolean b, z = Some ''0''\<rparr>))
      | VBuiltin f \<Rightarrow> Inl TypeError
      | other \<Rightarrow> Inr (js_set worksheet cellAddress other))"

section \<open>The spreadsheet library\<close>

text \<open>
  The three address routines the utilities call on \<open>xlsx.utils\<close>. The library is not
  part of the repository, so the utilities take it as a parameter; a routine that
  rejects its argument returns \<open>Inl\<close>.
\<close>

record xlsx_utils =
  decode_range :: "string \<Rightarrow> error + Range"
  decode_cell :: "string \<Rightarrow> error + CellAddress"
  encode_cell :: "CellAddress \<Rightarrow> string"

text \<open>
  Modelled from the spec: the library's address syntax, which the repository only
  calls. The spec gives range-string decoding to coordinate bounds, cell-address
  decoding to coordinates and cell-address encoding from coordinates, with "A1" at
  row 0, column 0 and "B2" at row 1, column 1. The instance below is the usual
  scheme: column letters in bijective base 26, the row in decimal, both one less
  than written, a range split at its colon. Coordinates are unbounded integers; a
  column index below 0 is encoded with no letters, and decoding yields none below -1.
\<close>

fun sheetjs_decode_cell_loop :: "string \<Rightarrow> int \<Rightarrow> int \<Rightarrow> CellAddress" where
  "sheetjs_decode_cell_loop [] R C = \<lparr>r = R - 1, c = C - 1\<rparr>"
| "sheetjs_decode_cell_loop (ch # rest) R C =
     (let cc = (of_char ch :: int) in
      if 48 \<le> cc \<and> cc \<le> 57 then sheetjs_decode_cell_loop rest (10 * R + (cc - 48)) C
      else if 65 \<le> cc \<and> cc \<le> 90 then sheetjs_decode_cell_loop rest R (26 * C + (cc - 64))
      else sheetjs_decode_cell_loop rest R C)"

definition sheetjs_decode_cell :: "string \<Rightarrow> CellAddress" where
  "sheetjs_decode_cell cstr = sheetjs_decode_cell_loop cstr 0 0"

definition sheetjs_decode_range :: "string \<Rightarrow> Range" where
  "sheetjs_decode_range rng =
     (if CHR '':'' \<notin> set rng
      then \<lparr>s = sheetjs_decode_cell rng, e = sheetjs_decode_cell rng\<rparr>
      else \<lparr>s = sheetjs_decode_cell (takeWhile (\<lambda>ch. ch \<noteq> CHR '':'') rng),
            e = sheetjs_decode_cell (tl (dropWhile (\<lambda>ch. ch \<noteq> CHR '':'') rng))\<rparr>)"

function sheetjs_encode_col :: "int \<Rightarrow> string \<Rightarrow> string" where
  "sheetjs_encode_col col acc =
     (if col \<le> 0 then acc
      else sheetjs_encode_col ((col - 1) div 26) (char_of ((col - 1) mod 26 + 65) # acc))"
  by pat_completeness auto
termination
  by (relation "measure (\<lambda>(col, acc). nat col)") auto

declare sheetjs_encode_col.simps [simp del]

function show_nat :: "int \<Rightarrow> string" where
  "show_nat n =
     (if n < 10 then [char_of (48 + n)]
      else show_nat (n div 10) @ [char_of (48 + n mod 10)])"
  by pat_completeness auto
termination
  by (relation "measure nat") auto

declare show_nat.simps [simp del]

definition show_int :: "int \<Rightarrow> string" where
  "show_int n = (if n < 0 then CHR ''-'' # show_nat (- n) else show_nat n)"

definition sheetjs_encode_cell :: "CellAddress \<Rightarrow> string" where
  "sheetjs_encode_cell cell = sheetjs_encode_col (c cell + 1) [] @ show_int (r cell + 1)"

definition sheetjs :: xlsx_utils where
  "sheetjs = \<lparr>decode_range = (\<lambda>rng. Inr (sheetjs_decode_range rng)),
              decode_cell = (\<lambda>cstr. Inr (sheetjs_decode_cell cstr)),
              encode_cell = sheetjs_encode_cell\<rparr>"

section \<open>The range reader\<close>

text \<open>
  The loop counters are JavaScript numbers; a coordinate is the integer that such a
  number carries. \<open>row++\<close> and \<open>col++\<close> add 1 in binary64: exactly up to \<open>2^53\<close>,
  and from there to the nearest binary64 value, which can be the counter itself. The
  sum of a binary64 integer and 1 never rounds to infinity, so the last case below
  is not reached from one.
\<close>

definition js_incr :: "int \<Rightarrow> int" where
  "js_incr n = (case round_double (of_int n + 1) of Fin q \<Rightarrow> \<lfloor>q\<rfloor> | other \<Rightarrow> n + 1)"

text \<open>
  The two \<open>for\<close> loops, each pushing onto its array. A loop whose start lies beyond
  its end does not run; a loop whose counter stops advancing below its end never
  returns, which is the value \<open>None\<close>.
\<close>

partial_function (option) colLoop ::
  "xlsx_utils \<Rightarrow> WorkSheet \<Rightarrow> Range \<Rightarrow> int \<Rightarrow> int \<Rightarrow> prim list \<Rightarrow> prim list option" where
  "colLoop xlsx worksheet decodedRange row col rowValues =
     (if col \<le> c (e decodedRange)
      then colLoop xlsx worksheet decodedRange row (js_incr col)
             (rowValues @ [opt_v (js_get worksheet (encode_cell xlsx \<lparr>r = row, c = col\<rparr>))])
      else Some rowValues)"

partial_function (option) rowLoop ::
  "xlsx_utils \<Rightarrow> WorkSheet \<Rightarrow> Range \<Rightarrow> int \<Rightarrow> prim list list \<Rightarrow> prim list list option" where
  "rowLoop xlsx worksheet decodedRange row vals =
     (if row \<le> r (e decodedRange)
      then Option.bind (colLoop xlsx worksheet decodedRange row (c (s decodedRange)) [])
             (\<lambda>rowValues. rowLoop xlsx worksheet decodedRange (js_incr row) (vals @ [rowValues]))
      else Some vals)"

text \<open>
  The reader's outcome: \<open>None\<close> when it never returns, the library's error when the
  range string is rejected, the rows otherwise.
\<close>

definition getRangeValues ::
  "xlsx_utils \<Rightarrow> WorkSheet \<Rightarrow> string \<Rightarrow> (error + prim list list) option" where
  "getRangeValues xlsx worksheet rng =
     (case decode_range xlsx rng of
        Inl err \<Rightarrow> Some (Inl err)
      | Inr decodedRange \<Rightarrow>
          map_option Inr (rowLoop xlsx worksheet decodedRange (r (s decodedRange)) []))"

section \<open>The cross-sheet copier\<close>

text \<open>
  The two worksheets are references and may be the same object, so the copier runs
  on a store of worksheets. \<open>targetCellAddress\<close> is optional; \<open>??\<close> falls back to
  the source address when it is omitted.
\<close>

type_synonym sheets = "nat \<Rightarrow> WorkSheet"

definition duplicateToSheet :: "sheets \<Rightarrow> nat \<Rightarrow> nat \<Rightarrow> string \<Rightarrow> string option \<Rightarrow> sheets" where
  "duplicateToSheet store sourceSheet targetSheet sourceCellAddress targetCellAddress =
     (let cellAddress = (case targetCellAddress of None \<Rightarrow> sourceCellAddress | Some a \<Rightarrow> a);
          sourceCell = js_get (store sourceSheet) cellAddress
      in store(targetSheet := js_set (store targetSheet) cellAddress sourceCell))"

section \<open>The merge registrar\<close>

text \<open>
  \<open>push\<close> exists on an array only: on any other value left under \<open>!merges\<close> the call
  is a TypeError.
\<close>

definition mergeCells :: "xlsx_utils \<Rightarrow> WorkSheet \<Rightarrow> string \<Rightarrow> string \<Rightarrow> error + WorkSheet" where
  "mergeCells xlsx worksheet startAddress endAddress =
     (case decode_cell xlsx startAddress of
        Inl err \<Rightarrow> Inl err
      | Inr startCell \<Rightarrow>
     (case decode_cell xlsx endAddress of
        Inl err \<Rightarrow> Inl err
      | Inr endCell \<Rightarrow>
          (let mergedRange = \<lparr>s = \<lparr>r = r startCell, c = c startCell\<rparr>,
                              e = \<lparr>r = r endCell, c = c endCell\<rparr>\<rparr>;
               worksheet1 = (if \<not> js_truthy (js_get worksheet ''!merges'')
                             then worksheet(''!merges'' \<mapsto> VArray [])
                             else worksheet)
           in case js_get worksheet1 ''!merges'' of
                VArray merges \<Rightarrow> Inr (worksheet1(''!merges'' \<mapsto> VArray (merges @ [mergedRange])))
              | other \<Rightarrow> Inl TypeError)))"

section \<open>Auxiliary facts\<close>

subsection \<open>Reading and assigning properties\<close>

lemma proto_of_cases:
  "proto_of worksheet = VBuiltin ObjectPrototype \<or> (\<exists>cell. proto_of worksheet = VObject cell)"
  by (simp add: proto_of_def split: option.splits jsval.splits)

lemma proto_of_not_undefined: "proto_of worksheet \<noteq> VUndefined"
  by (simp add: proto_of_def split: option.splits jsval.splits)

lemma object_member_not_object: "object_member key \<noteq> VObject cell"
  by (simp add: object_member_def)

lemma inherited_not_object: "inherited proto key \<noteq> VObject cell"
  by (cases "v (case proto of VObject x \<Rightarrow> x)")
     (simp_all add: inherited_def object_member_not_object split: jsval.splits)

lemma inherited_plain_key:
  assumes "key \<notin> set object_prototype_functions" and "key \<notin> {''t'', ''v'', ''z''}"
  shows "inherited proto key = VUndefined"
  using assms by (simp add: inherited_def object_member_def split: jsval.splits)

lemma js_get_merges:
  "js_get worksheet ''!merges'' = (case worksheet ''!merges'' of None \<Rightarrow> VUndefined | Some x \<Rightarrow> x)"
  by (simp add: js_get_def inherited_plain_key object_prototype_functions_def split: option.splits)

lemma js_get_own:
  "key \<noteq> ''__proto__'' \<Longrightarrow> worksheet key = Some x \<Longrightarrow> js_get worksheet key = x"
  by (simp add: js_get_def)

lemma js_set_other: "key \<noteq> ''__proto__'' \<Longrightarrow> js_set worksheet key x = worksheet(key \<mapsto> x)"
  by (simp add: js_set_def)

lemma js_set_object: "js_set worksheet key (VObject cell) = worksheet(key \<mapsto> VObject cell)"
  by (simp add: js_set_def)

lemma js_get_object: "js_get (worksheet(key \<mapsto> VObject cell)) key = VObject cell"
  by (simp add: js_get_def proto_of_def)

text \<open>
  Assigning under one name leaves what every other name reads, unless the name
  assigned is \<open>__proto__\<close>.
\<close>

lemma proto_of_upd: "key \<noteq> ''__proto__'' \<Longrightarrow> proto_of (worksheet(key \<mapsto> x)) = proto_of worksheet"
  by (simp add: proto_of_def)

lemma js_get_js_set_other:
  assumes "key \<noteq> ''__proto__''" and "key' \<noteq> key"
  shows "js_get (js_set worksheet key x) key' = js_get worksheet key'"
  using assms by (simp add: js_set_other js_get_def proto_of_upd split: option.splits)

text \<open>
  A value that is no cell record reads as the default with either typed reader, and
  has no raw value.
\<close>

lemma not_record_reads_default:
  assumes "\<And>cell. x \<noteq> VObject cell"
  shows "\<not> js_truthy x \<or> prop_t x = Inr None" and "opt_v x = PUndefined"
  using assms by (cases x; simp)+

lemma opt_v_js_get:
  "opt_v (js_get worksheet key) =
     (case worksheet key of Some (VObject cell) \<Rightarrow> v cell | _ \<Rightarrow> PUndefined)"
proof (cases "key = ''__proto__''")
  case True
  then show ?thesis
    by (simp add: js_get_def proto_of_def split: option.splits jsval.splits)
next
  case False
  show ?thesis
  proof (cases "worksheet key")
    case None
    with False show ?thesis
      by (simp add: js_get_def not_record_reads_default(2) inherited_not_object)
  next
    case (Some x)
    with False show ?thesis
      by (cases x) (simp_all add: js_get_def)
  qed
qed

subsection \<open>The modelled library on A1 and B2\<close>

lemma sheetjs_sel:
  "decode_range sheetjs rng = Inr (sheetjs_decode_range rng)"
  "decode_cell sheetjs cstr = Inr (sheetjs_decode_cell cstr)"
  "encode_cell sheetjs = sheetjs_encode_cell"
  by (simp_all add: sheetjs_def)

lemma decode_A1_B2:
  "sheetjs_decode_range ''A1:B2'' = \<lparr>s = \<lparr>r = 0, c = 0\<rparr>, e = \<lparr>r = 1, c = 1\<rparr>\<rparr>"
  "sheetjs_decode_range ''A1:A1'' = \<lparr>s = \<lparr>r = 0, c = 0\<rparr>, e = \<lparr>r = 0, c = 0\<rparr>\<rparr>"
  by (simp_all add: sheetjs_decode_range_def sheetjs_decode_cell_def)

lemma encode_A1_B2:
  "sheetjs_encode_cell \<lparr>r = 0, c = 0\<rparr> = ''A1''"
  "sheetjs_encode_cell \<lparr>r = 0, c = 1\<rparr> = ''B1''"
  "sheetjs_encode_cell \<lparr>r = 1, c = 0\<rparr> = ''A2''"
  "sheetjs_encode_cell \<lparr>r = 1, c = 1\<rparr> = ''B2''"
  by code_simp+

subsection \<open>Integers up to \<open>2^53\<close> are binary64 values\<close>

lemma bitlen_nonneg: "0 \<le> bitlen n"
proof (induction n rule: bitlen.induct)
  case (1 n)
  then show ?case by (subst bitlen.simps) simp
qed

lemma bitlen_pos: "0 < n \<Longrightarrow> 0 < bitlen n"
  using bitlen_nonneg [of "n div 2"] by (subst bitlen.simps) simp

lemma bitlen_bounds:
  "0 < n \<Longrightarrow> 2 ^ nat (bitlen n - 1) \<le> n \<and> n < 2 ^ nat (bitlen n)"
proof (induction n rule: bitlen.induct)
  case (1 n)
  show ?case
  proof (cases "n = 1")
    case True
    have "bitlen 1 = 1"
      by (subst bitlen.simps, subst bitlen.simps) simp
    with True show ?thesis by simp
  next
    case False
    with "1.prems" have half: "0 < n div 2" by simp
    have n: "\<not> n \<le> 0" using "1.prems" by simp
    from "1.IH" [OF n half] have ih: "2 ^ nat (bitlen (n div 2) - 1) \<le> n div 2"
      "n div 2 < 2 ^ nat (bitlen (n div 2))" by simp_all
    have b: "bitlen n = 1 + bitlen (n div 2)"
      using n by (subst bitlen.simps) simp
    have pos: "0 < bitlen (n div 2)" using half by (rule bitlen_pos)
    have e1: "nat (bitlen n - 1) = Suc (nat (bitlen (n div 2) - 1))"
      using b pos by simp
    have e2: "nat (bitlen n) = Suc (nat (bitlen (n div 2)))"
      using b pos by simp
    have lo: "2 * (2::int) ^ nat (bitlen (n div 2) - 1) \<le> n"
      using ih(1) by linarith
    have hi: "n < 2 * (2::int) ^ nat (bitlen (n div 2))"
      using ih(2) by linarith
    show ?thesis
      unfolding e1 e2 using lo hi by simp
  qed
qed

lemma ilog2_of_int:
  assumes "0 < p"
  shows "ilog2 (of_int p) = bitlen p - 1"
proof -
  have q: "quotient_of (of_int p) = (p, 1)"
    by simp
  have b1: "bitlen 1 = 1"
    by (subst bitlen.simps, subst bitlen.simps) simp
  have pos: "0 < bitlen p" using assms by (rule bitlen_pos)
  have "(2::int) ^ nat (bitlen p - 1) \<le> p"
    using bitlen_bounds [OF assms] by simp
  then have "(of_int ((2::int) ^ nat (bitlen p - 1)) :: rat) \<le> of_int p"
    by (simp only: of_int_le_iff)
  then have "pow2 (bitlen p - 1) \<le> of_int p"
    using pos by (simp add: pow2_def)
  then show ?thesis
    by (simp add: ilog2_def q b1)
qed

lemma round_half_even_of_int: "round_half_even (of_int j) = j"
  by (simp add: round_half_even_def)

lemma round_double_of_int:
  assumes "\<bar>m\<bar> \<le> 2 ^ 53"
  shows "round_double (of_int m) = Fin (of_int m)"
proof (cases "m = 0")
  case True
  then show ?thesis by (simp add: round_double_def)
next
  case False
  define p where "p = \<bar>m\<bar>"
  have p: "0 < p" "p \<le> 2 ^ 53" using False assms by (simp_all add: p_def)
  define k where "k = bitlen p - 1"
  have k0: "0 \<le> k" using bitlen_pos [OF p(1)] by (simp add: k_def)
  have lo: "2 ^ nat k \<le> p" using bitlen_bounds [OF p(1)] by (simp add: k_def)
  have "(2::int) ^ nat k \<le> 2 ^ 53" using lo p(2) by linarith
  then have "nat k \<le> 53"
    by (rule power_le_imp_le_exp [rotated]) simp
  then have k53: "k \<le> 53" by simp
  have a: "\<bar>of_int m :: rat\<bar> = of_int p" by (simp add: p_def)
  have il: "ilog2 (of_int p) = k" using ilog2_of_int [OF p(1)] by (simp add: k_def)
  have ex: "max k (- 1022) = k" using k0 by simp
  have "\<exists>j. (of_int p :: rat) / pow2 (k - 52) = of_int j \<and>
          of_int j * pow2 (k - 52) = (of_int p :: rat) \<and> (k = 53 \<longrightarrow> j = 2 ^ 52)"
  proof (cases "k \<le> 52")
    case True
    then have pw: "pow2 (k - 52) = 1 / 2 ^ nat (52 - k)"
      by (cases "k = 52") (simp_all add: pow2_def)
    show ?thesis
      by (rule exI [of _ "p * 2 ^ nat (52 - k)"]) (use True in \<open>simp add: pw\<close>)
  next
    case False
    with k53 have k: "k = 53" by simp
    with lo p(2) have pe: "p = 2 ^ 53" by simp
    show ?thesis
      by (rule exI [of _ "2 ^ 52"]) (simp add: k pe pow2_def)
  qed
  then obtain j where j: "(of_int p :: rat) / pow2 (k - 52) = of_int j"
    "of_int j * pow2 (k - 52) = (of_int p :: rat)" "k = 53 \<longrightarrow> j = 2 ^ 52" by blast
  have sgn: "(if 0 < (of_int m :: rat) then (of_int p :: rat) else - of_int p) = of_int m"
    using False by (simp add: p_def)
  have nz: "(of_int m :: rat) \<noteq> 0" using False by simp
  show ?thesis
    unfolding round_double_def a Let_def il ex j(1) round_half_even_of_int j(2)
    using nz k53 sgn by simp
qed

text \<open>Below \<open>2^53\<close> the increment is the successor; at \<open>2^53\<close> it is the identity.\<close>

lemma js_incr_safe:
  assumes "- (2 ^ 53) \<le> n" and "n < 2 ^ 53"
  shows "js_incr n = n + 1"
proof -
  have "\<bar>n + 1\<bar> \<le> 2 ^ 53" using assms by simp
  then have "round_double (of_int (n + 1)) = Fin (of_int (n + 1))"
    by (rule round_double_of_int)
  then show ?thesis
    by (simp add: js_incr_def)
qed

lemma js_incr_stuck: "js_incr (2 ^ 53) = 2 ^ 53"
  by code_simp

section \<open>The range reader walks the rectangle in row-major order\<close>

text \<open>
  With the end column below \<open>2^53\<close> the inner loop returns: it appends one value per
  column from \<open>col\<close> to the end column.
\<close>

lemma colLoop_eq:
  assumes "- (2 ^ 53) \<le> col" and "c (e rg) < 2 ^ 53"
  shows "colLoop xlsx worksheet rg row col acc =
     Some (acc @ map (\<lambda>j. opt_v (js_get worksheet (encode_cell xlsx \<lparr>r = row, c = j\<rparr>)))
                  [col..c (e rg)])"
  using assms(1)
proof (induction "nat (c (e rg) + 1 - col)" arbitrary: col acc)
  case 0
  then have "\<not> col \<le> c (e rg)" by simp
  then show ?case
    by (subst colLoop.simps) simp
next
  case (Suc k)
  then have le: "col \<le> c (e rg)" by simp
  then have up: "[col..c (e rg)] = col # [col + 1..c (e rg)]"
    by (simp add: upto_rec1)
  have inc: "js_incr col = col + 1"
    using Suc.prems le assms(2) by (intro js_incr_safe) simp_all
  have k: "k = nat (c (e rg) + 1 - (col + 1))"
    using Suc.hyps(2) by simp
  have lo: "- (2 ^ 53) \<le> col + 1"
    using Suc.prems by simp
  show ?case
    by (subst colLoop.simps) (simp add: le inc up Suc.hyps(1) [OF k lo])
qed

text \<open>With the end row below \<open>2^53\<close> as well, so does the outer loop, one row per row index.\<close>

lemma rowLoop_eq:
  assumes "- (2 ^ 53) \<le> row" and "r (e rg) < 2 ^ 53"
    and "- (2 ^ 53) \<le> c (s rg)" and "c (e rg) < 2 ^ 53"
  shows "rowLoop xlsx worksheet rg row acc =
     Some (acc @ map (\<lambda>i. map (\<lambda>j. opt_v (js_get worksheet (encode_cell xlsx \<lparr>r = i, c = j\<rparr>)))
                            [c (s rg)..c (e rg)])
                  [row..r (e rg)])"
  using assms(1)
proof (induction "nat (r (e rg) + 1 - row)" arbitrary: row acc)
  case 0
  then have "\<not> row \<le> r (e rg)" by simp
  then show ?case
    by (subst rowLoop.simps) simp
next
  case (Suc k)
  then have le: "row \<le> r (e rg)" by simp
  then have up: "[row..r (e rg)] = row # [row + 1..r (e rg)]"
    by (simp add: upto_rec1)
  have inc: "js_incr row = row + 1"
    using Suc.prems le assms(2) by (intro js_incr_safe) simp_all
  have k: "k = nat (r (e rg) + 1 - (row + 1))"
    using Suc.hyps(2) by simp
  have lo: "- (2 ^ 53) \<le> row + 1"
    using Suc.prems by simp
  show ?case
    by (subst rowLoop.simps)
       (simp add: le inc up Suc.hyps(1) [OF k lo] colLoop_eq [OF assms(3) assms(4)])
qed

text \<open>
  For a range string the library decodes to coordinates that a counter can step
  through, the reader returns one row per row index of the inclusive rectangle and,
  in each row, one entry per column index, in increasing order: the raw value \<open>v\<close>
  of the cell record stored at the encoded address, whatever its type tag, and
  \<open>undefined\<close> when no record is stored there.
\<close>

lemma getRangeValues_rows:
  assumes "decode_range xlsx rng = Inr rg"
    and "- (2 ^ 53) \<le> r (s rg)" and "r (e rg) < 2 ^ 53"
    and "- (2 ^ 53) \<le> c (s rg)" and "c (e rg) < 2 ^ 53"
  shows "getRangeValues xlsx worksheet rng =
     Some (Inr (map (\<lambda>i. map (\<lambda>j.
            (case worksheet (encode_cell xlsx \<lparr>r = i, c = j\<rparr>) of
               Some (VObject cell) \<Rightarrow> v cell
             | _ \<Rightarrow> PUndefined))
          [c (s rg)..c (e rg)]) [r (s rg)..r (e rg)]))"
  using assms(1)
  by (simp add: getRangeValues_def rowLoop_eq [OF assms(2-5)] opt_v_js_get)

lemma getRangeValues_A1_B2:
  "getRangeValues sheetjs
     [''A1'' \<mapsto> VObject \<lparr>t = Some ''n'', v = PNumber (Fin 1), z = None\<rparr>,
      ''B1'' \<mapsto> VObject \<lparr>t = Some ''n'', v = PNumber (Fin 2), z = None\<rparr>,
      ''A2'' \<mapsto> VObject \<lparr>t = Some ''n'', v = PNumber (Fin 3), z = None\<rparr>,
      ''B2'' \<mapsto> VObject \<lparr>t = Some ''n'', v = PNumber (Fin 4), z = None\<rparr>] ''A1:B2'' =
   Some (Inr [[PNumber (Fin 1), PNumber (Fin 2)], [PNumber (Fin 3), PNumber (Fin 4)]])"
proof -
  have d: "decode_range sheetjs ''A1:B2'' = Inr \<lparr>s = \<lparr>r = 0, c = 0\<rparr>, e = \<lparr>r = 1, c = 1\<rparr>\<rparr>"
    by (simp add: sheetjs_sel decode_A1_B2)
  have u: "[0..1::int] = [0, 1]"
    by (simp add: upto_rec1)
  show ?thesis
    using getRangeValues_rows [OF d] by (simp add: u encode_A1_B2 sheetjs_sel)
qed

text \<open>
  C2 asks for an empty slot wherever the stored cell's tag is not numeric. On the
  worksheet whose cell A1 is tagged as a string and holds \<open>x\<close>, the reader over
  \<open>A1:A1\<close> returns the string \<open>x\<close> in that slot, where the numeric reader beside it,
  which tests the tag, returns its default 0 for the same cell.
\<close>

theorem getRangeValues_returns_string_cell:
  "getRangeValues sheetjs
     [''A1'' \<mapsto> VObject \<lparr>t = Some ''s'', v = PString ''x'', z = None\<rparr>] ''A1:A1''
     = Some (Inr [[PString ''x'']]) \<and>
   getRangeValues sheetjs
     [''A1'' \<mapsto> VObject \<lparr>t = Some ''s'', v = PString ''x'', z = None\<rparr>] ''A1:A1''
     \<noteq> Some (Inr [[PUndefined]]) \<and>
   getCellNumericValue
     [''A1'' \<mapsto> VObject \<lparr>t = Some ''s'', v = PString ''x'', z = None\<rparr>] ''A1''
     = Inr (PNumber (Fin 0))"
proof -
  have d: "decode_range sheetjs ''A1:A1'' = Inr \<lparr>s = \<lparr>r = 0, c = 0\<rparr>, e = \<lparr>r = 0, c = 0\<rparr>\<rparr>"
    by (simp add: sheetjs_sel decode_A1_B2)
  have g: "getRangeValues sheetjs
     [''A1'' \<mapsto> VObject \<lparr>t = Some ''s'', v = PString ''x'', z = None\<rparr>] ''A1:A1''
     = Some (Inr [[PString ''x'']])"
    using getRangeValues_rows [OF d] by (simp add: encode_A1_B2 sheetjs_sel)
  have n: "getCellNumericValue
     [''A1'' \<mapsto> VObject \<lparr>t = Some ''s'', v = PString ''x'', z = None\<rparr>] ''A1''
     = Inr (PNumber (Fin 0))"
    by (simp add: getCellNumericValue_def js_get_def)
  show ?thesis
    using g n by simp
qed

section \<open>The typed readers never fail\<close>

text \<open>What either reader makes of the value it has read.\<close>

lemma typed_read_value:
  "(let cell = x in
    if \<not> js_truthy cell then Inr d
    else case prop_t cell of
      Inl err \<Rightarrow> Inl err
    | Inr tag \<Rightarrow> if tag \<noteq> Some tg then Inr d else prop_v cell) =
   Inr (case x of VObject cell \<Rightarrow> if t cell = Some tg then v cell else d | _ \<Rightarrow> d)"
  by (cases x) (simp_all add: Let_def)

text \<open>
  A read gives a cell record exactly when the map holds one under the name: nothing
  inherited is a cell record, and under \<open>__proto__\<close> the map holds the prototype.
\<close>

lemma js_get_record:
  "(case js_get worksheet key of VObject cell \<Rightarrow> f cell | _ \<Rightarrow> d) =
   (case worksheet key of Some (VObject cell) \<Rightarrow> f cell | _ \<Rightarrow> d)"
proof (cases "key = ''__proto__''")
  case True
  then show ?thesis
    by (simp add: js_get_def proto_of_def split: option.splits jsval.splits)
next
  case False
  show ?thesis
  proof (cases "worksheet key")
    case None
    have "(case inherited (proto_of worksheet) key of VObject cell \<Rightarrow> f cell | _ \<Rightarrow> d) = d"
      by (cases "inherited (proto_of worksheet) key") (simp_all add: inherited_not_object)
    with False None show ?thesis
      by (simp add: js_get_def)
  next
    case (Some x)
    with False show ?thesis
      by (simp add: js_get_def)
  qed
qed

text \<open>
  C5. For every worksheet and address, \<open>getCellNumericValue\<close> returns a value and not
  an error: the raw value \<open>v\<close> of the stored cell record when its tag is \<open>n\<close>, and
  0 when no cell record is stored or its tag is not \<open>n\<close>. \<open>getCellStringValue\<close> does
  the same with the tag \<open>s\<close> and the empty string.
\<close>

theorem typed_readers_default_or_value:
  "getCellNumericValue worksheet cellAddress =
     Inr (case worksheet cellAddress of
            Some (VObject cell) \<Rightarrow> if t cell = Some ''n'' then v cell else PNumber (Fin 0)
          | _ \<Rightarrow> PNumber (Fin 0)) \<and>
   getCellStringValue worksheet cellAddress =
     Inr (case worksheet cellAddress of
            Some (VObject cell) \<Rightarrow> if t cell = Some ''s'' then v cell else PString ''''
          | _ \<Rightarrow> PString '''')"
  unfolding getCellNumericValue_def getCellStringValue_def typed_read_value js_get_record
  by simp

theorem typed_readers_default_or_value_witness:
  "getCellNumericValue [''A1'' \<mapsto> VObject \<lparr>t = Some ''n'', v = PNumber (Fin 7), z = None\<rparr>] ''A1''
     = Inr (PNumber (Fin 7)) \<and>
   getCellStringValue [''A1'' \<mapsto> VObject \<lparr>t = Some ''n'', v = PNumber (Fin 7), z = None\<rparr>] ''A1''
     = Inr (PString '''')"
  using typed_readers_default_or_value
    [where worksheet = "[''A1'' \<mapsto> VObject \<lparr>t = Some ''n'', v = PNumber (Fin 7), z = None\<rparr>]"
      and cellAddress = "''A1''"]
  by simp

section \<open>Writing a string\<close>

text \<open>
  C3, as the code has it. For every worksheet, cell address and string (an address
  is not the name \<open>__proto__\<close>): with \<open>formatCell\<close> true or omitted, \<open>setCellValue\<close>
  stores a record tagged \<open>s\<close> that holds exactly the string; with \<open>formatCell\<close> false
  it stores the bare string under the address, not a record.
\<close>

theorem setCellValue_string:
  assumes "cellAddress \<noteq> ''__proto__''"
  shows
  "(formatCell_arg \<noteq> Some False \<longrightarrow>
      setCellValue worksheet cellAddress (VString str) formatCell_arg =
        Inr (worksheet(cellAddress \<mapsto> VObject \<lparr>t = Some ''s'', v = PString str, z = None\<rparr>))) \<and>
   setCellValue worksheet cellAddress (VString str) (Some False) =
     Inr (worksheet(cellAddress \<mapsto> VString str))"
  using assms by (auto simp: setCellValue_def js_set_other split: option.splits)

theorem setCellValue_string_witness:
  "''A1'' \<noteq> ''__proto__'' \<and>
   setCellValue Map.empty ''A1'' (VString ''x'') (Some True) =
     Inr [''A1'' \<mapsto> VObject \<lparr>t = Some ''s'', v = PString ''x'', z = None\<rparr>] \<and>
   setCellValue Map.empty ''A1'' (VString ''x'') (Some False) = Inr [''A1'' \<mapsto> VString ''x'']"
  using setCellValue_string [where formatCell_arg = "Some True" and worksheet = Map.empty
      and cellAddress = "''A1''" and str = "''x''"]
  by simp

text \<open>
  C3 as the spec states it fails when the flag is false: the slot then holds the
  string \<open>x\<close> itself, which is no string-tagged record, and the string reader gives
  the empty string back for it.
\<close>

theorem setCellValue_string_unformatted_counterexample:
  "setCellValue Map.empty ''A1'' (VString ''x'') (Some False) = Inr [''A1'' \<mapsto> VString ''x''] \<and>
   setCellValue Map.empty ''A1'' (VString ''x'') (Some False) \<noteq>
     Inr [''A1'' \<mapsto> VObject \<lparr>t = Some ''s'', v = PString ''x'', z = None\<rparr>] \<and>
   getCellStringValue [''A1'' \<mapsto> VString ''x''] ''A1'' = Inr (PString '''')"
  by (auto simp: setCellValue_def js_set_def getCellStringValue_def js_get_def
      dest: fun_cong [where x = "''A1''"])

text \<open>
  Under the name \<open>__proto__\<close> the same call stores nothing: the inherited setter
  ignores a string.
\<close>

lemma setCellValue_string_proto:
  "setCellValue worksheet ''__proto__'' (VString str) (Some False) = Inr worksheet"
  by (simp add: setCellValue_def js_set_def)

section \<open>Writing a record verbatim and reading it back\<close>

text \<open>
  C7. For every worksheet, address and cell record tagged \<open>n\<close>, writing the record
  with \<open>formatCell\<close> false and then reading the address with \<open>getCellNumericValue\<close>
  returns the record's value.
\<close>

theorem numeric_record_round_trip:
  assumes "t cell = Some ''n''"
  shows "(case setCellValue worksheet cellAddress (VObject cell) (Some False) of
            Inl err \<Rightarrow> Inl err
          | Inr worksheet' \<Rightarrow> getCellNumericValue worksheet' cellAddress) = Inr (v cell)"
  using assms
  by (simp add: setCellValue_def getCellNumericValue_def js_set_object js_get_object)

theorem numeric_record_round_trip_witness:
  "t \<lparr>t = Some ''n'', v = PNumber (Fin (7 / 2)), z = Some ''0.00''\<rparr> = Some ''n'' \<and>
   (case setCellValue Map.empty ''C3''
           (VObject \<lparr>t = Some ''n'', v = PNumber (Fin (7 / 2)), z = Some ''0.00''\<rparr>) (Some False) of
      Inl err \<Rightarrow> Inl err
    | Inr worksheet' \<Rightarrow> getCellNumericValue worksheet' ''C3'') = Inr (PNumber (Fin (7 / 2)))"
  using numeric_record_round_trip
    [where cell = "\<lparr>t = Some ''n'', v = PNumber (Fin (7 / 2)), z = Some ''0.00''\<rparr>"
      and worksheet = Map.empty and cellAddress = "''C3''"]
  by simp

section \<open>The copier\<close>

text \<open>
  With a target address given, the copier assigns, under the target address of the
  target sheet, what the source sheet reads under that same target address.
\<close>

lemma duplicateToSheet_slot:
  "duplicateToSheet store sourceSheet targetSheet sourceCellAddress (Some targetCellAddress)
     targetSheet =
   js_set (store targetSheet) targetCellAddress (js_get (store sourceSheet) targetCellAddress)"
  by (simp add: duplicateToSheet_def)

text \<open>
  On two empty sheets the copier at \<open>__proto__\<close> creates no key, and at
  \<open>constructor\<close> it stores the inherited function in the target.
\<close>

lemma duplicateToSheet_inherited:
  "duplicateToSheet (\<lambda>n. Map.empty) 0 1 ''__proto__'' None 1 = Map.empty"
  "duplicateToSheet (\<lambda>n. Map.empty) 0 1 ''constructor'' None 1 =
     [''constructor'' \<mapsto> VBuiltin (ObjectMember ''constructor'')]"
  by (simp_all add: duplicateToSheet_def js_get_def js_set_def proto_of_def inherited_def
      object_member_def object_prototype_functions_def Let_def)

text \<open>
  C1 asks that the record stored at the source address arrive at a distinct target
  address. On the sheet 0 holding a numeric record at A1 and the empty sheet 1,
  copying A1 to B1 reads B1 of sheet 0, which is absent, and leaves \<open>undefined\<close>
  at B1 of sheet 1, not the record.
\<close>

theorem duplicateToSheet_distinct_target_reads_target_address:
  "duplicateToSheet
     ((\<lambda>n. Map.empty)(0 := [''A1'' \<mapsto> VObject \<lparr>t = Some ''n'', v = PNumber (Fin 1), z = None\<rparr>]))
     0 1 ''A1'' (Some ''B1'') 1 ''B1'' = Some VUndefined \<and>
   duplicateToSheet
     ((\<lambda>n. Map.empty)(0 := [''A1'' \<mapsto> VObject \<lparr>t = Some ''n'', v = PNumber (Fin 1), z = None\<rparr>]))
     0 1 ''A1'' (Some ''B1'') 1 ''B1'' \<noteq>
     Some (VObject \<lparr>t = Some ''n'', v = PNumber (Fin 1), z = None\<rparr>)"
  by (simp add: duplicateToSheet_def js_get_def js_set_def proto_of_def inherited_def
      object_member_def object_prototype_functions_def)

text \<open>
  C9. Whenever the slot of the source sheet that the copier consults (at the target
  address when one is given, at the source address otherwise) reads as \<open>undefined\<close>,
  holding no cell record, the copier, which has no failing path, leaves that address
  an own key of the target sheet, present and holding \<open>undefined\<close>.
\<close>

theorem duplicateToSheet_missing_source:
  assumes "cellAddress = (case targetCellAddress of None \<Rightarrow> sourceCellAddress | Some a \<Rightarrow> a)"
    and "js_get (store sourceSheet) cellAddress = VUndefined"
  shows "duplicateToSheet store sourceSheet targetSheet sourceCellAddress targetCellAddress
           targetSheet cellAddress = Some VUndefined \<and>
         cellAddress \<in> own_keys
           (duplicateToSheet store sourceSheet targetSheet sourceCellAddress targetCellAddress
              targetSheet)"
proof -
  have "cellAddress \<noteq> ''__proto__''"
    using assms(2) proto_of_not_undefined [of "store sourceSheet"] by (auto simp: js_get_def)
  with assms show ?thesis
    by (simp add: duplicateToSheet_def js_set_other own_keys_def)
qed

theorem duplicateToSheet_missing_source_witness:
  "''A1'' = (case None of None \<Rightarrow> ''A1'' | Some a \<Rightarrow> a) \<and>
   js_get (((\<lambda>n. Map.empty) :: sheets) 0) ''A1'' = VUndefined \<and>
   ((\<lambda>n. Map.empty) :: sheets) 1 ''A1'' = None \<and>
   duplicateToSheet (\<lambda>n. Map.empty) 0 1 ''A1'' None 1 ''A1'' = Some VUndefined \<and>
   ''A1'' \<in> own_keys (duplicateToSheet (\<lambda>n. Map.empty) 0 1 ''A1'' None 1)"
proof -
  have g: "js_get (((\<lambda>n. Map.empty) :: sheets) 0) ''A1'' = VUndefined"
    by (simp add: js_get_def proto_of_def inherited_def object_member_def
        object_prototype_functions_def)
  show ?thesis
    using duplicateToSheet_missing_source [where cellAddress = "''A1''"
        and targetCellAddress = None and sourceCellAddress = "''A1''"
        and store = "\<lambda>n. Map.empty" and sourceSheet = 0 and targetSheet = 1] g
    by simp
qed

section \<open>The rounding helper\<close>

text \<open>
  The model agrees with the example of the helper's documentation,
  \<open>(1.1234567890123456789).toFixedFloat(6) = 1.123457\<close>, both sides being the
  binary64 values nearest to the decimals written.
\<close>

lemma toFixedFloat_documented_example:
  "toFixedFloat (Fin (2529799788181427 / 2251799813685248)) (Some 6) =
     Inr (Fin (5059600526566775 / 4503599627370496))"
  by code_simp

text \<open>With the argument omitted the digit count is in range, so the helper returns.\<close>

lemma toFixedFloat_default_returns: "\<exists>y. toFixedFloat x None = Inr y"
  by (simp add: toFixedFloat_def toFixed_def Let_def split: number.splits)

text \<open>
  C4 asks that an omitted digit count mean 14. The default written in the code is
  35: the helper with no argument is the helper at 35 digits. On
  \<open>0.1 + 0.2 = 0.30000000000000004\<close> (the binary64 value
  \<open>1351079888211149 / 2^52\<close>) it returns the number unchanged, where 14 digits give
  the binary64 value of \<open>0.3\<close>.
\<close>

theorem toFixedFloat_default_is_35_digits:
  "toFixedFloat x None = toFixedFloat x (Some 35) \<and>
   toFixedFloat (Fin (1351079888211149 / 4503599627370496)) None =
     Inr (Fin (1351079888211149 / 4503599627370496)) \<and>
   toFixedFloat (Fin (1351079888211149 / 4503599627370496)) (Some 14) =
     Inr (Fin (5404319552844595 / 18014398509481984))"
proof (intro conjI)
  show "toFixedFloat x None = toFixedFloat x (Some 35)"
    by (simp add: toFixedFloat_def)
  show "toFixedFloat (Fin (1351079888211149 / 4503599627370496)) None =
     Inr (Fin (1351079888211149 / 4503599627370496))"
    by code_simp
  show "toFixedFloat (Fin (1351079888211149 / 4503599627370496)) (Some 14) =
     Inr (Fin (5404319552844595 / 18014398509481984))"
    by code_simp
qed

section \<open>Writing a number\<close>

text \<open>The test \<open>value % 1 === 0\<close> holds of a finite number exactly when it is an integer.\<close>

lemma js_rem_one_whole: "strict_eq (js_rem (Fin q) (Fin 1)) (Fin 0) \<longleftrightarrow> q \<in> \<int>"
proof (cases "0 \<le> q")
  case True
  have "q - of_int \<lfloor>q\<rfloor> = 0 \<longleftrightarrow> q \<in> \<int>"
    by (metis Ints_of_int eq_iff_diff_eq_0 floor_of_int Ints_cases)
  with True show ?thesis
    by (simp add: js_rem_def strict_eq_def Let_def)
next
  case False
  have "q - of_int \<lceil>q\<rceil> = 0 \<longleftrightarrow> q \<in> \<int>"
    by (metis Ints_of_int eq_iff_diff_eq_0 ceiling_of_int Ints_cases)
  with False show ?thesis
    by (simp add: js_rem_def strict_eq_def Let_def)
qed

lemma toFixedFloat_5_25: "toFixedFloat (Fin (21 / 4)) None = Inr (Fin (21 / 4))"
  by code_simp

lemma not_int_21_4: "(21 / 4 :: rat) \<notin> \<int>"
proof
  assume "(21 / 4 :: rat) \<in> \<int>"
  then have "strict_eq (js_rem (Fin (21 / 4)) (Fin 1)) (Fin 0)"
    by (simp only: js_rem_one_whole)
  moreover have "\<not> strict_eq (js_rem (Fin (21 / 4)) (Fin 1)) (Fin 0)"
    by code_simp
  ultimately show False by simp
qed

lemma setCellValue_whole:
  assumes "formatCell_arg \<noteq> Some False" and "q \<in> \<int>"
  shows "setCellValue worksheet cellAddress (VNumber (Fin q)) formatCell_arg =
     Inr (worksheet(cellAddress \<mapsto> VObject \<lparr>t = Some ''n'', v = PNumber (Fin q), z = Some ''0''\<rparr>))"
  using assms by (auto simp: setCellValue_def js_rem_one_whole js_set_object split: option.splits)

lemma setCellValue_fractional:
  assumes "formatCell_arg \<noteq> Some False" and "q \<notin> \<int>"
    and "toFixedFloat (Fin q) None = Inr fixedValue"
  shows "setCellValue worksheet cellAddress (VNumber (Fin q)) formatCell_arg =
     Inr (worksheet(cellAddress \<mapsto>
       VObject \<lparr>t = Some ''n'', v = PNumber fixedValue, z = Some ''0.0000''\<rparr>))"
  using assms by (auto simp: setCellValue_def js_rem_one_whole js_set_object split: option.splits)

text \<open>
  C6. With formatting enabled (\<open>formatCell\<close> true or omitted), on every worksheet and
  address: writing 5 stores a record tagged \<open>n\<close> with value 5 and format \<open>0\<close>;
  writing 5.25 (\<open>21 / 4\<close>) stores a record tagged \<open>n\<close> with value 5.25 and format
  \<open>0.0000\<close>; every whole number is stored as it is with format \<open>0\<close>, and every
  finite number that is not whole is stored, as \<open>toFixedFloat\<close> rounds it, with
  format \<open>0.0000\<close>.
\<close>

theorem setCellValue_number_format:
  assumes "formatCell_arg \<noteq> Some False"
  shows
  "setCellValue worksheet cellAddress (VNumber (Fin 5)) formatCell_arg =
     Inr (worksheet(cellAddress \<mapsto> VObject \<lparr>t = Some ''n'', v = PNumber (Fin 5), z = Some ''0''\<rparr>)) \<and>
   setCellValue worksheet cellAddress (VNumber (Fin (21 / 4))) formatCell_arg =
     Inr (worksheet(cellAddress \<mapsto>
       VObject \<lparr>t = Some ''n'', v = PNumber (Fin (21 / 4)), z = Some ''0.0000''\<rparr>)) \<and>
   (whole \<in> \<int> \<longrightarrow>
      setCellValue worksheet cellAddress (VNumber (Fin whole)) formatCell_arg =
        Inr (worksheet(cellAddress \<mapsto>
          VObject \<lparr>t = Some ''n'', v = PNumber (Fin whole), z = Some ''0''\<rparr>))) \<and>
   (fractional \<notin> \<int> \<longrightarrow>
      (\<exists>fixedValue. toFixedFloat (Fin fractional) None = Inr fixedValue \<and>
         setCellValue worksheet cellAddress (VNumber (Fin fractional)) formatCell_arg =
           Inr (worksheet(cellAddress \<mapsto>
             VObject \<lparr>t = Some ''n'', v = PNumber fixedValue, z = Some ''0.0000''\<rparr>))))"
proof (intro conjI impI)
  show "setCellValue worksheet cellAddress (VNumber (Fin 5)) formatCell_arg =
     Inr (worksheet(cellAddress \<mapsto> VObject \<lparr>t = Some ''n'', v = PNumber (Fin 5), z = Some ''0''\<rparr>))"
    using assms by (intro setCellValue_whole) simp_all
  show "setCellValue worksheet cellAddress (VNumber (Fin (21 / 4))) formatCell_arg =
     Inr (worksheet(cellAddress \<mapsto>
       VObject \<lparr>t = Some ''n'', v = PNumber (Fin (21 / 4)), z = Some ''0.0000''\<rparr>))"
    using assms not_int_21_4 toFixedFloat_5_25 by (rule setCellValue_fractional)
next
  assume "whole \<in> \<int>"
  with assms show "setCellValue worksheet cellAddress (VNumber (Fin whole)) formatCell_arg =
        Inr (worksheet(cellAddress \<mapsto>
          VObject \<lparr>t = Some ''n'', v = PNumber (Fin whole), z = Some ''0''\<rparr>))"
    by (rule setCellValue_whole)
next
  assume nonint: "fractional \<notin> \<int>"
  obtain y where y: "toFixedFloat (Fin fractional) None = Inr y"
    using toFixedFloat_default_returns by blast
  from setCellValue_fractional [OF assms nonint y] y
  show "\<exists>fixedValue. toFixedFloat (Fin fractional) None = Inr fixedValue \<and>
         setCellValue worksheet cellAddress (VNumber (Fin fractional)) formatCell_arg =
           Inr (worksheet(cellAddress \<mapsto>
             VObject \<lparr>t = Some ''n'', v = PNumber fixedValue, z = Some ''0.0000''\<rparr>))"
    by blast
qed

theorem setCellValue_number_format_witness:
  "None \<noteq> Some False \<and> (- 3 :: rat) \<in> \<int> \<and> (21 / 4 :: rat) \<notin> \<int> \<and>
   setCellValue Map.empty ''A1'' (VNumber (Fin 5)) None =
     Inr [''A1'' \<mapsto> VObject \<lparr>t = Some ''n'', v = PNumber (Fin 5), z = Some ''0''\<rparr>] \<and>
   setCellValue Map.empty ''A1'' (VNumber (Fin (- 3))) None =
     Inr [''A1'' \<mapsto> VObject \<lparr>t = Some ''n'', v = PNumber (Fin (- 3)), z = Some ''0''\<rparr>] \<and>
   setCellValue Map.empty ''A1'' (VNumber (Fin (21 / 4))) None =
     Inr [''A1'' \<mapsto> VObject \<lparr>t = Some ''n'', v = PNumber (Fin (21 / 4)), z = Some ''0.0000''\<rparr>]"
proof -
  have f: "(None :: bool option) \<noteq> Some False"
    by simp
  have w: "(- 3 :: rat) \<in> \<int>"
    by simp
  show ?thesis
    using setCellValue_number_format [OF f, where worksheet = Map.empty and cellAddress = "''A1''"
        and whole = "- 3" and fractional = "21 / 4"] w not_int_21_4
    by simp
qed

section \<open>The writer touches one key\<close>

text \<open>The writer returns on every value but a function.\<close>

lemma setCellValue_returns:
  assumes "js_typeof val \<noteq> ''function''"
  shows "\<exists>slot. setCellValue worksheet cellAddress val formatCell_arg =
     Inr (js_set worksheet cellAddress slot)"
proof -
  obtain y where "toFixedFloat (case val of VNumber x \<Rightarrow> x | _ \<Rightarrow> NaN) None = Inr y"
    using toFixedFloat_default_returns by blast
  with assms show ?thesis
    by (cases val rule: js_typeof.cases)
       (auto simp: setCellValue_def Let_def split: option.splits)
qed

text \<open>
  Under the name \<open>__proto__\<close> a record written verbatim becomes the prototype: the
  worksheet gains no own key, and the names \<open>t\<close> and \<open>v\<close> then read the record's
  fields.
\<close>

lemma setCellValue_proto_record:
  "setCellValue Map.empty ''__proto__''
     (VObject \<lparr>t = Some ''n'', v = PNumber (Fin 1), z = None\<rparr>) (Some False) =
     Inr [''__proto__'' \<mapsto> VObject \<lparr>t = Some ''n'', v = PNumber (Fin 1), z = None\<rparr>]"
  "own_keys [''__proto__'' \<mapsto> VObject \<lparr>t = Some ''n'', v = PNumber (Fin 1), z = None\<rparr>] = {}"
  "js_get [''__proto__'' \<mapsto> VObject \<lparr>t = Some ''n'', v = PNumber (Fin 1), z = None\<rparr>] ''t'' =
     VString ''n''"
  "js_get [''__proto__'' \<mapsto> VObject \<lparr>t = Some ''n'', v = PNumber (Fin 1), z = None\<rparr>] ''v'' =
     VNumber (Fin 1)"
  by (simp_all add: setCellValue_def js_set_def own_keys_def js_get_def proto_of_def inherited_def)

text \<open>
  C10. A cell address is neither the key \<open>!merges\<close>, under which the merge list
  lives, nor the name \<open>__proto__\<close>. For every worksheet, every such address, every
  value of the parameter's type (no function is one) and every flag, \<open>setCellValue\<close>
  returns, and in the worksheet it leaves every entry at another key is what it
  was, every other key reads what it read, and the merge list is what it was.
\<close>

theorem setCellValue_frame:
  assumes "cellAddress \<noteq> ''!merges''" and "cellAddress \<noteq> ''__proto__''"
    and "js_typeof val \<noteq> ''function''"
  shows "\<exists>worksheet'. setCellValue worksheet cellAddress val formatCell_arg = Inr worksheet' \<and>
           (\<forall>key. key \<noteq> cellAddress \<longrightarrow>
              worksheet' key = worksheet key \<and> js_get worksheet' key = js_get worksheet key) \<and>
           worksheet' ''!merges'' = worksheet ''!merges''"
proof -
  obtain slot where
    "setCellValue worksheet cellAddress val formatCell_arg = Inr (js_set worksheet cellAddress slot)"
    using setCellValue_returns [OF assms(3)] by blast
  moreover have "\<forall>key. key \<noteq> cellAddress \<longrightarrow>
      js_get (js_set worksheet cellAddress slot) key = js_get worksheet key"
    using assms(2) by (simp add: js_get_js_set_other)
  ultimately show ?thesis
    using assms(1,2) by (simp add: js_set_other)
qed

theorem setCellValue_frame_witness:
  "''A1'' \<noteq> ''!merges'' \<and> ''A1'' \<noteq> ''__proto__'' \<and>
   js_typeof (VNumber (Fin 5)) \<noteq> ''function'' \<and>
   setCellValue [''B1'' \<mapsto> VString ''keep'', ''!merges'' \<mapsto> VArray []] ''A1''
     (VNumber (Fin 5)) None =
     Inr [''B1'' \<mapsto> VString ''keep'', ''!merges'' \<mapsto> VArray [],
          ''A1'' \<mapsto> VObject \<lparr>t = Some ''n'', v = PNumber (Fin 5), z = Some ''0''\<rparr>]"
  using setCellValue_frame [where cellAddress = "''A1''"
      and worksheet = "[''B1'' \<mapsto> VString ''keep'', ''!merges'' \<mapsto> VArray []]"
      and val = "VNumber (Fin 5)" and formatCell_arg = None]
  by (simp add: setCellValue_def js_rem_def strict_eq_def js_set_def)

section \<open>The merge registrar appends\<close>

text \<open>
  C8. On a worksheet with no \<open>!merges\<close> key, merging A1 to B2 leaves under that key
  the list of the one rectangle from row 0, column 0 to row 1, column 1. For any two
  addresses the library decodes, \<open>mergeCells\<close> creates the list with the one
  rectangle of the two decoded coordinates when the key is absent, and appends that
  rectangle after the rectangles already in the list when there is one; no other
  key changes.
\<close>

theorem mergeCells_appends:
  "(fresh ''!merges'' = None \<longrightarrow>
      mergeCells sheetjs fresh ''A1'' ''B2'' =
        Inr (fresh(''!merges'' \<mapsto> VArray [\<lparr>s = \<lparr>r = 0, c = 0\<rparr>, e = \<lparr>r = 1, c = 1\<rparr>\<rparr>]))) \<and>
   (decode_cell xlsx startAddress = Inr startCell \<and> decode_cell xlsx endAddress = Inr endCell \<longrightarrow>
      (fresh ''!merges'' = None \<longrightarrow>
         mergeCells xlsx fresh startAddress endAddress =
           Inr (fresh(''!merges'' \<mapsto> VArray [\<lparr>s = startCell, e = endCell\<rparr>]))) \<and>
      (worksheet ''!merges'' = Some (VArray merges) \<longrightarrow>
         mergeCells xlsx worksheet startAddress endAddress =
           Inr (worksheet(''!merges'' \<mapsto> VArray (merges @ [\<lparr>s = startCell, e = endCell\<rparr>])))))"
  by (auto simp: mergeCells_def js_get_merges sheetjs_sel sheetjs_decode_cell_def)

theorem mergeCells_appends_witness:
  "(Map.empty :: WorkSheet) ''!merges'' = None \<and>
   decode_cell sheetjs ''C3'' = Inr \<lparr>r = 2, c = 2\<rparr> \<and>
   decode_cell sheetjs ''D4'' = Inr \<lparr>r = 3, c = 3\<rparr> \<and>
   mergeCells sheetjs Map.empty ''A1'' ''B2'' =
     Inr [''!merges'' \<mapsto> VArray [\<lparr>s = \<lparr>r = 0, c = 0\<rparr>, e = \<lparr>r = 1, c = 1\<rparr>\<rparr>]] \<and>
   mergeCells sheetjs Map.empty ''C3'' ''D4'' =
     Inr [''!merges'' \<mapsto> VArray [\<lparr>s = \<lparr>r = 2, c = 2\<rparr>, e = \<lparr>r = 3, c = 3\<rparr>\<rparr>]] \<and>
   mergeCells sheetjs
     [''!merges'' \<mapsto> VArray [\<lparr>s = \<lparr>r = 0, c = 0\<rparr>, e = \<lparr>r = 1, c = 1\<rparr>\<rparr>]] ''C3'' ''D4'' =
     Inr [''!merges'' \<mapsto> VArray [\<lparr>s = \<lparr>r = 0, c = 0\<rparr>, e = \<lparr>r = 1, c = 1\<rparr>\<rparr>,
                                   \<lparr>s = \<lparr>r = 2, c = 2\<rparr>, e = \<lparr>r = 3, c = 3\<rparr>\<rparr>]]"
proof -
  have d: "decode_cell sheetjs ''C3'' = Inr \<lparr>r = 2, c = 2\<rparr>"
    "decode_cell sheetjs ''D4'' = Inr \<lparr>r = 3, c = 3\<rparr>"
    by (simp_all add: sheetjs_sel sheetjs_decode_cell_def)
  show ?thesis
    using mergeCells_appends [where fresh = Map.empty and xlsx = sheetjs
        and startAddress = "''C3''" and endAddress = "''D4''"
        and startCell = "\<lparr>r = 2, c = 2\<rparr>" and endCell = "\<lparr>r = 3, c = 3\<rparr>"
        and worksheet = "[''!merges'' \<mapsto> VArray [\<lparr>s = \<lparr>r = 0, c = 0\<rparr>, e = \<lparr>r = 1, c = 1\<rparr>\<rparr>]]"
        and merges = "[\<lparr>s = \<lparr>r = 0, c = 0\<rparr>, e = \<lparr>r = 1, c = 1\<rparr>\<rparr>]"] d
    by simp
qed


end
